theory Spec2Isabelle
  imports Main
begin

section \<open>JavaScript values as App.jsx uses them\<close>

text \<open>
  \<open>packages/react-app/src/App.jsx\<close> tests values for truthiness (\<open>&&\<close>, \<open>? :\<close>,
  \<open>if\<close>) and reads properties of objects it did not build itself (providers of the ethers
  library, the axios response, the wallet of the browser). A value is therefore one of
  JavaScript's cases; an object is the list of the properties that can be read from it,
  and a function is a value that can be called (what it does is its owner's). Numbers
  are the integers and \<open>NaN\<close>: every other number is truthy like a non-zero integer.
\<close>

datatype jsval =
    JUndefined
  | JNull
  | JBool bool
  | JNum int
  | JNaN
  | JStr string
  | JObj "(string \<times> jsval) list"
  | JFun

datatype js_error = TypeError | RequestFailed | InvalidArgument

text \<open>ToBoolean: \<open>undefined\<close>, \<open>null\<close>, \<open>false\<close>, \<open>0\<close>, \<open>NaN\<close> and \<open>""\<close> are falsy.\<close>

fun truthy :: "jsval \<Rightarrow> bool" where
  "truthy JUndefined = False"
| "truthy JNull = False"
| "truthy (JBool b) = b"
| "truthy (JNum n) = (n \<noteq> 0)"
| "truthy JNaN = False"
| "truthy (JStr s) = (s \<noteq> [])"
| "truthy (JObj fs) = True"
| "truthy JFun = True"

text \<open>
  \<open>v.k\<close>: reading a property of \<open>undefined\<close> or \<open>null\<close> throws a TypeError; an object
  gives the property or \<open>undefined\<close>; a primitive or a function has none of the
  properties this file reads (\<open>_network\<close>, \<open>chainId\<close>, \<open>isAdmin\<close>, \<open>on\<close>), so the read
  gives \<open>undefined\<close>.
\<close>

fun get_prop :: "jsval \<Rightarrow> string \<Rightarrow> js_error + jsval" where
  "get_prop JUndefined k = Inl TypeError"
| "get_prop JNull k = Inl TypeError"
| "get_prop (JObj fs) k = Inr (case map_of fs k of Some v \<Rightarrow> v | None \<Rightarrow> JUndefined)"
| "get_prop v k = Inr JUndefined"

text \<open>
  \<open>a && b\<close>: the value of \<open>a\<close> when it is falsy, and \<open>b\<close> is then not evaluated (so an
  error \<open>b\<close> would raise is not raised); the value of \<open>b\<close> otherwise.
\<close>

definition js_and :: "js_error + jsval \<Rightarrow> js_error + jsval \<Rightarrow> js_error + jsval" where
  "js_and a b = (case a of Inl e \<Rightarrow> Inl e | Inr v \<Rightarrow> if truthy v then b else Inr v)"

text \<open>\<open>a.k1.k2\<close>: the second read happens only when the first one returned.\<close>

definition get_prop2 :: "jsval \<Rightarrow> string \<Rightarrow> string \<Rightarrow> js_error + jsval" where
  "get_prop2 v k1 k2 = (case get_prop v k1 of Inl e \<Rightarrow> Inl e | Inr w \<Rightarrow> get_prop w k2)"

text \<open>A string that may be \<open>undefined\<close> (an environment variable, the wallet address).\<close>

fun str_val :: "string option \<Rightarrow> jsval" where
  "str_val None = JUndefined"
| "str_val (Some s) = JStr s"

text \<open>The property \<open>k\<close> of \<open>v\<close> can be read and is truthy.\<close>

definition has_truthy :: "jsval \<Rightarrow> string \<Rightarrow> bool" where
  "has_truthy v k = (case get_prop v k of Inl e \<Rightarrow> False | Inr w \<Rightarrow> truthy w)"

text \<open>Only a function can be called: calling any other value throws a TypeError.\<close>

fun callable :: "jsval \<Rightarrow> bool" where
  "callable JFun = True"
| "callable v = False"

text \<open>The property \<open>k\<close> of \<open>v\<close> can be read and is a function.\<close>

definition has_method :: "jsval \<Rightarrow> string \<Rightarrow> bool" where
  "has_method v k = (case get_prop v k of Inl e \<Rightarrow> False | Inr f \<Rightarrow> callable f)"


section \<open>Module scope: constants and the JSON-RPC providers\<close>

text \<open>
  \<open>./constants\<close> is imported, not part of the file: \<open>INFURA_ID\<close>, \<open>SERVER_URL\<close> and
  \<open>NETWORKS.mainnet.rpcUrl\<close> (the file's \<open>targetNetwork\<close> is \<open>NETWORKS.mainnet\<close>) are
  parameters.
\<close>

record constants =
  INFURA_ID :: string
  SERVER_URL :: string
  NETWORKS_mainnet_rpcUrl :: string

text \<open>A \<open>new StaticJsonRpcProvider(url)\<close>, by the URL it is given.\<close>

datatype rpc_provider = StaticJsonRpcProvider string

fun endpoint :: "rpc_provider \<Rightarrow> string" where
  "endpoint (StaticJsonRpcProvider u) = u"

definition localProviderUrl :: "constants \<Rightarrow> string" where
  "localProviderUrl c = NETWORKS_mainnet_rpcUrl c"

text \<open>
  \<open>process.env.REACT_APP_PROVIDER ? process.env.REACT_APP_PROVIDER : localProviderUrl\<close>;
  the environment variable is a string or \<open>undefined\<close>.
\<close>

definition localProviderUrlFromEnv :: "string option \<Rightarrow> constants \<Rightarrow> string" where
  "localProviderUrlFromEnv REACT_APP_PROVIDER c =
     (case REACT_APP_PROVIDER of
        None \<Rightarrow> localProviderUrl c
      | Some u \<Rightarrow> if truthy (JStr u) then u else localProviderUrl c)"

definition scaffoldEthProvider :: rpc_provider where
  "scaffoldEthProvider = StaticJsonRpcProvider ''https://rpc.scaffoldeth.io:48544''"

definition mainnetInfura :: "constants \<Rightarrow> rpc_provider" where
  "mainnetInfura c = StaticJsonRpcProvider (''https://mainnet.infura.io/v3/'' @ INFURA_ID c)"

definition localProvider :: "string option \<Rightarrow> constants \<Rightarrow> rpc_provider" where
  "localProvider REACT_APP_PROVIDER c =
     StaticJsonRpcProvider (localProviderUrlFromEnv REACT_APP_PROVIDER c)"

text \<open>
  The JSON-RPC providers the module instantiates when it is loaded, in the order of the
  \<open>new\<close> expressions (lines 31, 32 and 40 of the file).
\<close>

definition module_providers :: "string option \<Rightarrow> constants \<Rightarrow> rpc_provider list" where
  "module_providers REACT_APP_PROVIDER c =
     [scaffoldEthProvider, mainnetInfura c, localProvider REACT_APP_PROVIDER c]"

text \<open>
  \<open>scaffoldEthProvider && scaffoldEthProvider._network ? scaffoldEthProvider : mainnetInfura\<close>
  (first line of \<open>App\<close>), on the two provider objects as they are at that render: the
  ethers library fills \<open>_network\<close> in once it has detected the network.
\<close>

definition mainnetProvider :: "jsval \<Rightarrow> jsval \<Rightarrow> js_error + jsval" where
  "mainnetProvider scaffoldEth infura =
     (case js_and (Inr scaffoldEth) (get_prop scaffoldEth ''_network'') of
        Inl e \<Rightarrow> Inl e
      | Inr t \<Rightarrow> Inr (if truthy t then scaffoldEth else infura))"


section \<open>Wallet events of the browser\<close>

text \<open>
  The last statement of the module registers, when \<open>window.ethereum\<close> is truthy, one
  handler for \<open>chainChanged\<close> and one for \<open>accountsChanged\<close>, by two calls of
  \<open>window.ethereum.on\<close>. Each handler reads \<open>web3Modal.cachedProvider\<close> when the event
  arrives and, when it is truthy, calls \<open>setTimeout(() => window.location.reload(), 1)\<close>.
  A handler returns the timeouts it sets.
\<close>

datatype task = Reload_page

record timeout =
  callback :: task
  ms :: nat

definition chainChanged_handler :: "jsval \<Rightarrow> timeout list" where
  "chainChanged_handler cachedProvider =
     (if truthy cachedProvider then [\<lparr>callback = Reload_page, ms = 1\<rparr>] else [])"

definition accountsChanged_handler :: "jsval \<Rightarrow> timeout list" where
  "accountsChanged_handler cachedProvider =
     (if truthy cachedProvider then [\<lparr>callback = Reload_page, ms = 1\<rparr>] else [])"

type_synonym handlers = "(string \<times> (jsval \<Rightarrow> timeout list)) list"

text \<open>
  \<open>ethereum.on(name, h)\<close>: the read of \<open>on\<close> and its call. Nothing guards the call, so
  it throws a TypeError when \<open>on\<close> is not a function; when it is one, it is the wallet's
  way to register a listener, and \<open>h\<close> is registered under \<open>name\<close> after the handlers
  \<open>hs\<close> registered before.
\<close>

definition ethereum_on ::
  "jsval \<Rightarrow> string \<Rightarrow> (jsval \<Rightarrow> timeout list) \<Rightarrow> handlers \<Rightarrow> js_error + handlers" where
  "ethereum_on ethereum name h hs =
     (case get_prop ethereum ''on'' of
        Inl e \<Rightarrow> Inl e
      | Inr f \<Rightarrow> if callable f then Inr (hs @ [(name, h)]) else Inl TypeError)"

text \<open>
  The statement itself: the handlers registered when the module has been loaded, or the
  error that stops the load.
\<close>

definition wallet_handlers :: "jsval \<Rightarrow> js_error + handlers" where
  "wallet_handlers window_ethereum =
     (if truthy window_ethereum
      then (case ethereum_on window_ethereum ''chainChanged'' chainChanged_handler [] of
              Inl e \<Rightarrow> Inl e
            | Inr hs \<Rightarrow>
                ethereum_on window_ethereum ''accountsChanged'' accountsChanged_handler hs)
      else Inr [])"

text \<open>
  The event \<open>name\<close> arrives: every handler registered under that name runs. When the
  registration threw, no handler is registered.
\<close>

definition emit :: "jsval \<Rightarrow> string \<Rightarrow> jsval \<Rightarrow> timeout list" where
  "emit window_ethereum name cachedProvider =
     (case wallet_handlers window_ethereum of
        Inl e \<Rightarrow> []
      | Inr hs \<Rightarrow> concat (map (\<lambda>(n, h). if n = name then h cachedProvider else []) hs))"

text \<open>The page is reloaded once a timeout whose callback reloads it has been set.\<close>

definition reloads_page :: "timeout list \<Rightarrow> bool" where
  "reloads_page ts = list_ex (\<lambda>t. callback t = Reload_page) ts"


section \<open>The App component\<close>

text \<open>
  \<open>USER_ROLES\<close>, the three role names.
\<close>

record user_roles =
  admin :: string
  anonymous :: string
  registered :: string

definition USER_ROLES :: user_roles where
  "USER_ROLES = \<lparr>admin = ''user_role.administrator'',
                  anonymous = ''user_role.anonymous'',
                  registered = ''user_role.registered''\<rparr>"

text \<open>
  An HTTP request as axios is asked to send it, and the part of an axios response the file
  reads (\<open>fetchedUserObject.data\<close>, the parsed body).
\<close>

datatype http_method = GET | POST | PUT | PATCH | DELETE

record http_request =
  "method" :: http_method
  url :: string
  params :: "(string \<times> jsval) list"
  body :: "jsval option"

record axios_response =
  data :: jsval

record flash_message =
  status :: string
  text' :: jsval

text \<open>
  An asynchronous operation the code of the file starts: a \<open>web3Modal.connect()\<close>, an
  \<open>axios.get\<close>, the \<open>web3Modal.clearCachedProvider()\<close> that \<open>logoutOfWeb3Modal\<close> awaits, a
  \<open>setTimeout\<close>.
\<close>

datatype async_op =
    Op_connect
  | Op_get http_request
  | Op_clearCachedProvider
  | Op_setTimeout timeout

text \<open>
  The state of the component. The first three fields are its \<open>useState\<close> cells. The rest
  is what React and the JavaScript runtime keep for it: whether the first render has been
  committed, the \<open>address\<close> the role effect last ran with (its dependency array is
  \<open>[address]\<close>), the \<open>web3Modal.connect()\<close> calls, the \<open>axios.get\<close> calls and the
  \<open>clearCachedProvider()\<close> calls that have not settled yet, the timeouts set, every HTTP
  request issued so far, and every asynchronous operation started so far.
\<close>

record app_state =
  injectedProvider :: jsval
  userRole :: string
  flashMessages :: "flash_message list"
  mounted :: bool
  effect_address :: "string option"
  pending_connects :: nat
  pending_fetches :: "http_request list"
  pending_clears :: nat
  timeouts :: "timeout list"
  http_log :: "http_request list"
  async_started :: "async_op list"

text \<open>
  What the component takes from outside the file: the constants, and the ethers
  constructor \<open>Web3Provider\<close>, which returns the new provider or throws.
\<close>

record imported = constants +
  Web3Provider :: "jsval \<Rightarrow> js_error + jsval"

text \<open>\<open>useState()\<close>, \<open>useState(USER_ROLES.anonymous)\<close>, \<open>useState([])\<close>: nothing has run yet.\<close>

definition init :: app_state where
  "init = \<lparr>injectedProvider = JUndefined,
           userRole = anonymous USER_ROLES,
           flashMessages = [],
           mounted = False,
           effect_address = None,
           pending_connects = 0,
           pending_fetches = [],
           pending_clears = 0,
           timeouts = [],
           http_log = [],
           async_started = []\<rparr>"

text \<open>
  \<open>loadWeb3Modal\<close> up to its \<open>await\<close>: \<open>web3Modal.connect()\<close> has been called and has not
  settled. Nothing awaits or keeps the promise \<open>loadWeb3Modal\<close> returns.
\<close>

definition loadWeb3Modal :: "app_state \<Rightarrow> app_state" where
  "loadWeb3Modal s =
     s\<lparr>pending_connects := Suc (pending_connects s),
       async_started := async_started s @ [Op_connect]\<rparr>"

text \<open>
  \<open>loadWeb3Modal\<close> after its \<open>await\<close>: \<open>setInjectedProvider(new Web3Provider(provider))\<close>.
  The constructor runs first; when it throws, \<open>setInjectedProvider\<close> is not called and the
  promise of \<open>loadWeb3Modal\<close>, which nothing handles, is rejected.
\<close>

definition loadWeb3Modal_resumed :: "imported \<Rightarrow> jsval \<Rightarrow> app_state \<Rightarrow> app_state" where
  "loadWeb3Modal_resumed im provider s =
     (case Web3Provider im provider of
        Inl e \<Rightarrow> s
      | Inr web3Provider \<Rightarrow> s\<lparr>injectedProvider := web3Provider\<rparr>)"

text \<open>
  \<open>logoutOfWeb3Modal\<close> up to its \<open>await\<close> (\<open>web3Modal.clearCachedProvider()\<close> has been
  called), and after it: \<open>setTimeout(() => window.location.reload(), 1)\<close>.
\<close>

definition logoutOfWeb3Modal :: "app_state \<Rightarrow> app_state" where
  "logoutOfWeb3Modal s =
     s\<lparr>pending_clears := Suc (pending_clears s),
       async_started := async_started s @ [Op_clearCachedProvider]\<rparr>"

definition logoutOfWeb3Modal_resumed :: "app_state \<Rightarrow> app_state" where
  "logoutOfWeb3Modal_resumed s =
     s\<lparr>timeouts := timeouts s @ [\<lparr>callback = Reload_page, ms = 1\<rparr>],
       async_started := async_started s @ [Op_setTimeout \<lparr>callback = Reload_page, ms = 1\<rparr>]\<rparr>"

text \<open>\<open>axios.get(serverUrl + `/user`, { params: { address } })\<close>.\<close>

definition user_request :: "imported \<Rightarrow> string option \<Rightarrow> http_request" where
  "user_request im address =
     \<lparr>method = GET,
      url = SERVER_URL im @ ''/user'',
      params = [(''address'', str_val address)],
      body = None\<rparr>"

text \<open>\<open>fetchUserData\<close> up to its \<open>await\<close>: the request is issued and has not settled.\<close>

definition fetchUserData :: "imported \<Rightarrow> string option \<Rightarrow> app_state \<Rightarrow> app_state" where
  "fetchUserData im address s =
     s\<lparr>pending_fetches := pending_fetches s @ [user_request im address],
       http_log := http_log s @ [user_request im address],
       async_started := async_started s @ [Op_get (user_request im address)]\<rparr>"

text \<open>
  The rest of the \<open>try\<close> block, on the response: the role to set, or the error that
  reading \<open>fetchedUserObject.data.isAdmin\<close> throws.
\<close>

definition role_of_response :: "axios_response \<Rightarrow> js_error + string" where
  "role_of_response r =
     (case get_prop (data r) ''isAdmin'' of
        Inl e \<Rightarrow> Inl e
      | Inr v \<Rightarrow> Inr (if truthy v then admin USER_ROLES else registered USER_ROLES))"

text \<open>
  \<open>fetchUserData\<close> after its \<open>await\<close>: the request was rejected (\<open>Inl\<close>) or answered. The
  \<open>catch\<close> takes both the rejection and an error thrown inside the \<open>try\<close> block.
\<close>

definition fetchUserData_resumed :: "js_error + axios_response \<Rightarrow> app_state \<Rightarrow> app_state" where
  "fetchUserData_resumed outcome s =
     (case outcome of
        Inl e \<Rightarrow> s\<lparr>userRole := anonymous USER_ROLES\<rparr>
      | Inr r \<Rightarrow>
          (case role_of_response r of
             Inl e \<Rightarrow> s\<lparr>userRole := anonymous USER_ROLES\<rparr>
           | Inr role \<Rightarrow> s\<lparr>userRole := role\<rparr>))"

text \<open>The two effects that call asynchronous functions, in the order of the file.\<close>

definition connect_effect :: "jsval \<Rightarrow> app_state \<Rightarrow> app_state" where
  "connect_effect cachedProvider s = (if truthy cachedProvider then loadWeb3Modal s else s)"

definition role_effect :: "imported \<Rightarrow> string option \<Rightarrow> app_state \<Rightarrow> app_state" where
  "role_effect im address s =
     (if truthy (str_val address) then fetchUserData im address s else s)"

text \<open>\<open>flashMessage.success\<close> and \<open>flashMessage.error\<close>: the updaters given to \<open>setFlashMessages\<close>.\<close>

definition flash_success :: "jsval \<Rightarrow> flash_message list \<Rightarrow> flash_message list" where
  "flash_success message prevFlashMessages =
     prevFlashMessages @ [\<lparr>status = ''success'', text' = message\<rparr>]"

definition flash_error :: "jsval \<Rightarrow> flash_message list \<Rightarrow> flash_message list" where
  "flash_error message prevFlashMessages =
     prevFlashMessages @ [\<lparr>status = ''error'', text' = message\<rparr>]"

text \<open>
  What can happen to the component:
  \<^item> \<open>Mount cachedProvider address\<close>: the first render is committed; \<open>address\<close> is what
    \<open>useUserAddress\<close> returned in it and \<open>cachedProvider\<close> is \<open>web3Modal.cachedProvider\<close> as
    the connect effect reads it. Both effects run.
  \<^item> \<open>Update address\<close>: a later render is committed. The connect effect does not run again
    (\<open>loadWeb3Modal\<close> is the same callback in every render); the role effect runs when
    \<open>address\<close> is not the one it last ran with.
  \<^item> \<open>Call_loadWeb3Modal\<close>, \<open>Call_logoutOfWeb3Modal\<close>, \<open>Header_setUserRole role\<close>: \<open>Header\<close>
    is handed \<open>loadWeb3Modal\<close>, \<open>logoutOfWeb3Modal\<close> and \<open>setUserRole\<close> as props and calls
    one of them; \<open>Header\<close> is not part of the file, so when it calls them, and which
    \<open>role\<close> it passes to \<open>setUserRole\<close>, is open.
  \<^item> \<open>Connect_resolved p\<close>, \<open>Connect_rejected\<close>: a pending \<open>web3Modal.connect()\<close> settles.
  \<^item> \<open>Clear_resolved\<close>, \<open>Clear_rejected\<close>: a pending \<open>clearCachedProvider()\<close> settles.
  \<^item> \<open>Fetch_resolved i r\<close>, \<open>Fetch_rejected i\<close>: the pending request number \<open>i\<close> settles.
  \<^item> \<open>Flash_success m\<close>, \<open>Flash_error m\<close>: a descendant calls \<open>flashMessage.success(m)\<close> or
    \<open>flashMessage.error(m)\<close>.
  An event that cannot happen in a state (a second mount, a call by \<open>Header\<close> before the
  first render, a settlement with nothing pending) leaves the state as it is. A timeout
  that fires reloads the page and so ends the run: a run is what happens up to there.
\<close>

datatype event =
    Mount jsval "string option"
  | Update "string option"
  | Call_loadWeb3Modal
  | Call_logoutOfWeb3Modal
  | Header_setUserRole string
  | Connect_resolved jsval
  | Connect_rejected
  | Clear_resolved
  | Clear_rejected
  | Fetch_resolved nat axios_response
  | Fetch_rejected nat
  | Flash_success jsval
  | Flash_error jsval

definition drop_nth :: "nat \<Rightarrow> 'a list \<Rightarrow> 'a list" where
  "drop_nth i xs = take i xs @ drop (Suc i) xs"

fun step :: "imported \<Rightarrow> app_state \<Rightarrow> event \<Rightarrow> app_state" where
  "step im s (Mount cachedProvider address) =
     (if mounted s then s
      else role_effect im address
             (connect_effect cachedProvider
               (s\<lparr>mounted := True, effect_address := address\<rparr>)))"
| "step im s (Update address) =
     (if \<not> mounted s \<or> address = effect_address s then s
      else role_effect im address (s\<lparr>effect_address := address\<rparr>))"
| "step im s Call_loadWeb3Modal = (if mounted s then loadWeb3Modal s else s)"
| "step im s Call_logoutOfWeb3Modal = (if mounted s then logoutOfWeb3Modal s else s)"
| "step im s (Header_setUserRole role) = (if mounted s then s\<lparr>userRole := role\<rparr> else s)"
| "step im s (Connect_resolved provider) =
     (if pending_connects s = 0 then s
      else loadWeb3Modal_resumed im provider
             (s\<lparr>pending_connects := pending_connects s - 1\<rparr>))"
| "step im s Connect_rejected =
     (if pending_connects s = 0 then s
      else s\<lparr>pending_connects := pending_connects s - 1\<rparr>)"
| "step im s Clear_resolved =
     (if pending_clears s = 0 then s
      else logoutOfWeb3Modal_resumed (s\<lparr>pending_clears := pending_clears s - 1\<rparr>))"
| "step im s Clear_rejected =
     (if pending_clears s = 0 then s
      else s\<lparr>pending_clears := pending_clears s - 1\<rparr>)"
| "step im s (Fetch_resolved i r) =
     (if i < length (pending_fetches s)
      then fetchUserData_resumed (Inr r)
             (s\<lparr>pending_fetches := drop_nth i (pending_fetches s)\<rparr>)
      else s)"
| "step im s (Fetch_rejected i) =
     (if i < length (pending_fetches s)
      then fetchUserData_resumed (Inl RequestFailed)
             (s\<lparr>pending_fetches := drop_nth i (pending_fetches s)\<rparr>)
      else s)"
| "step im s (Flash_success m) = s\<lparr>flashMessages := flash_success m (flashMessages s)\<rparr>"
| "step im s (Flash_error m) = s\<lparr>flashMessages := flash_error m (flashMessages s)\<rparr>"

fun run :: "imported \<Rightarrow> app_state \<Rightarrow> event list \<Rightarrow> app_state" where
  "run im s [] = s"
| "run im s (e # es) = run im (step im s e) es"

text \<open>
  One render: \<open>userProvider = useUserProvider(injectedProvider)\<close>,
  \<open>address = useUserAddress(userProvider)\<close> and
  \<open>selectedChainId = userProvider && userProvider._network && userProvider._network.chainId\<close>.
  \<open>useUserProvider\<close> (of \<open>./hooks\<close>) and \<open>useUserAddress\<close> (of the eth-hooks package) are
  not in the file: they are parameters, each standing for the hook as it answers in the
  render at hand.
\<close>

record hooks =
  useUserProvider :: "jsval \<Rightarrow> jsval"
  useUserAddress :: "jsval \<Rightarrow> string option"

definition userProvider :: "hooks \<Rightarrow> app_state \<Rightarrow> jsval" where
  "userProvider h s = useUserProvider h (injectedProvider s)"

definition address :: "hooks \<Rightarrow> app_state \<Rightarrow> string option" where
  "address h s = useUserAddress h (userProvider h s)"

definition chainId_of :: "jsval \<Rightarrow> js_error + jsval" where
  "chainId_of provider =
     js_and (js_and (Inr provider) (get_prop provider ''_network''))
            (get_prop2 provider ''_network'' ''chainId'')"

definition selectedChainId :: "hooks \<Rightarrow> app_state \<Rightarrow> js_error + jsval" where
  "selectedChainId h s = chainId_of (userProvider h s)"


section \<open>Notions the properties are stated with\<close>

text \<open>
  A commit is a \<open>Mount\<close> or an \<open>Update\<close>; it carries the \<open>address\<close> of its render. A
  commit issues a role fetch when the role effect runs in it (the first commit, or
  \<open>address\<close> has changed) and \<open>address\<close> is truthy.
\<close>

fun is_commit :: "event \<Rightarrow> bool" where
  "is_commit (Mount cachedProvider a) = True"
| "is_commit (Update a) = True"
| "is_commit e = False"

fun commit_address :: "event \<Rightarrow> string option" where
  "commit_address (Mount cachedProvider a) = a"
| "commit_address (Update a) = a"
| "commit_address e = None"

fun issues_fetch :: "app_state \<Rightarrow> event \<Rightarrow> bool" where
  "issues_fetch s (Mount cachedProvider a) = (\<not> mounted s \<and> truthy (str_val a))"
| "issues_fetch s (Update a) = (mounted s \<and> a \<noteq> effect_address s \<and> truthy (str_val a))"
| "issues_fetch s e = False"

text \<open>
  The events that settle a pending request (and which one), and those that settle a
  pending connect.
\<close>

fun settled_fetch :: "event \<Rightarrow> nat option" where
  "settled_fetch (Fetch_resolved i r) = Some i"
| "settled_fetch (Fetch_rejected i) = Some i"
| "settled_fetch e = None"

definition settles_fetch :: "event \<Rightarrow> bool" where
  "settles_fetch e = (settled_fetch e \<noteq> None)"

fun settles_connect :: "event \<Rightarrow> bool" where
  "settles_connect (Connect_resolved p) = True"
| "settles_connect Connect_rejected = True"
| "settles_connect e = False"

text \<open>An event calls \<open>loadWeb3Modal\<close>: the first commit with a cached provider, or \<open>Header\<close>.\<close>

fun calls_loadWeb3Modal :: "app_state \<Rightarrow> event \<Rightarrow> bool" where
  "calls_loadWeb3Modal s (Mount cachedProvider a) = (\<not> mounted s \<and> truthy cachedProvider)"
| "calls_loadWeb3Modal s Call_loadWeb3Modal = mounted s"
| "calls_loadWeb3Modal s e = False"

text \<open>
  The asynchronous operations an event starts, in their order: a connect where
  \<open>loadWeb3Modal\<close> is called, a GET where a role fetch is issued, the clearing of the cached
  provider where \<open>Header\<close> calls \<open>logoutOfWeb3Modal\<close>, and the timeout of the reload once
  that clearing has resolved.
\<close>

definition starts :: "imported \<Rightarrow> app_state \<Rightarrow> event \<Rightarrow> async_op list" where
  "starts im s e =
     (if calls_loadWeb3Modal s e then [Op_connect] else []) @
     (if issues_fetch s e then [Op_get (user_request im (commit_address e))] else []) @
     (if e = Call_logoutOfWeb3Modal \<and> mounted s then [Op_clearCachedProvider] else []) @
     (if e = Clear_resolved \<and> 0 < pending_clears s
      then [Op_setTimeout \<lparr>callback = Reload_page, ms = 1\<rparr>] else [])"


text \<open>Invariants of the runs, used in the proofs below.\<close>

definition user_get :: "imported \<Rightarrow> http_request \<Rightarrow> bool" where
  "user_get im r \<longleftrightarrow>
     method r = GET \<and> url r = SERVER_URL im @ ''/user'' \<and> body r = None \<and>
     (\<exists>a. a \<noteq> [] \<and> params r = [(''address'', JStr a)])"




text \<open>Concrete values for the examples.\<close>

definition example_constants :: constants where
  "example_constants =
     \<lparr>INFURA_ID = ''id'', SERVER_URL = ''https://backend'',
      NETWORKS_mainnet_rpcUrl = ''https://mainnet''\<rparr>"

text \<open>
  A constructor that accepts and refuses what the \<open>Web3Provider\<close> of the ethers library
  does: it throws for \<open>null\<close> and \<open>undefined\<close>, and for a value that is not a function and
  has no \<open>request\<close>, \<open>sendAsync\<close> or \<open>send\<close>; otherwise it returns an object that holds
  the provider.
\<close>

definition example_Web3Provider :: "jsval \<Rightarrow> js_error + jsval" where
  "example_Web3Provider p =
     (if p = JNull \<or> p = JUndefined then Inl InvalidArgument
      else if callable p \<or> has_truthy p ''request'' \<or> has_truthy p ''sendAsync'' \<or>
              has_truthy p ''send''
      then Inr (JObj [(''provider'', p)])
      else Inl InvalidArgument)"

definition example_imported :: imported where
  "example_imported =
     \<lparr>INFURA_ID = ''id'', SERVER_URL = ''https://backend'',
      NETWORKS_mainnet_rpcUrl = ''https://mainnet'',
      Web3Provider = example_Web3Provider\<rparr>"

text \<open>A wallet as the browser injects it: it has \<open>request\<close> and \<open>on\<close>.\<close>

definition example_wallet :: jsval where
  "example_wallet = JObj [(''request'', JFun), (''on'', JFun)]"

definition example_hooks :: hooks where
  "example_hooks =
     \<lparr>useUserProvider = (\<lambda>p. p),
      useUserAddress = (\<lambda>p. if truthy p then Some ''0xA'' else None)\<rparr>"

definition example_provider :: jsval where
  "example_provider = JObj [(''_network'', JObj [(''chainId'', JNum 1)])]"

text \<open>The component after its first commit with the address \<open>0xA\<close>: one request is pending.\<close>

definition example_fetching :: app_state where
  "example_fetching = run example_imported init [Mount JUndefined (Some ''0xA'')]"


section \<open>How one event changes each part of the state\<close>

lemmas step_defs = role_effect_def connect_effect_def fetchUserData_def loadWeb3Modal_def
  loadWeb3Modal_resumed_def fetchUserData_resumed_def logoutOfWeb3Modal_def
  logoutOfWeb3Modal_resumed_def

lemmas example_defs = example_constants_def example_imported_def example_hooks_def
  example_provider_def example_fetching_def example_wallet_def example_Web3Provider_def
  has_truthy_def init_def USER_ROLES_def step_defs user_request_def drop_nth_def

lemma http_log_step:
  "http_log (step im s e) =
     http_log s @ (if issues_fetch s e then [user_request im (commit_address e)] else [])"
  by (cases e) (simp_all add: step_defs split: sum.splits)

lemma pending_fetches_step:
  "pending_fetches (step im s e) =
     (case settled_fetch e of
        Some i \<Rightarrow>
          if i < length (pending_fetches s)
          then take i (pending_fetches s) @ drop (Suc i) (pending_fetches s)
          else pending_fetches s
      | None \<Rightarrow> pending_fetches s @
          (if issues_fetch s e then [user_request im (commit_address e)] else []))"
  by (cases e) (simp_all add: step_defs drop_nth_def split: sum.splits)

lemma async_started_step: "async_started (step im s e) = async_started s @ starts im s e"
  by (cases e) (simp_all add: step_defs starts_def split: sum.splits)

lemma timeouts_step:
  "timeouts (step im s e) =
     timeouts s @ (if e = Clear_resolved \<and> 0 < pending_clears s
                   then [\<lparr>callback = Reload_page, ms = 1\<rparr>] else [])"
  by (cases e) (simp_all add: step_defs split: sum.splits)

lemma userRole_step:
  "userRole (step im s e) =
     (case e of
        Fetch_resolved i r \<Rightarrow>
          if i < length (pending_fetches s)
          then (case role_of_response r of Inl x \<Rightarrow> anonymous USER_ROLES | Inr role \<Rightarrow> role)
          else userRole s
      | Fetch_rejected i \<Rightarrow>
          if i < length (pending_fetches s) then anonymous USER_ROLES else userRole s
      | Header_setUserRole role \<Rightarrow> if mounted s then role else userRole s
      | _ \<Rightarrow> userRole s)"
  by (cases e) (simp_all add: step_defs split: sum.splits)

lemma mounted_step:
  "mounted (step im s e) = (mounted s \<or> (case e of Mount c a \<Rightarrow> True | _ \<Rightarrow> False))"
  by (cases e) (simp_all add: step_defs split: sum.splits)

lemma effect_address_step:
  "effect_address (step im s e) =
     (case e of
        Mount c a \<Rightarrow> if mounted s then effect_address s else a
      | Update a \<Rightarrow> if mounted s then a else effect_address s
      | _ \<Rightarrow> effect_address s)"
  by (cases e) (simp_all add: step_defs split: sum.splits)

lemma pending_connects_step:
  "pending_connects (step im s e) =
     (if settles_connect e then pending_connects s - 1
      else if calls_loadWeb3Modal s e then Suc (pending_connects s)
      else pending_connects s)"
  by (cases e) (simp_all add: step_defs split: sum.splits)

lemma injectedProvider_step:
  "injectedProvider (step im s e) =
     (case e of
        Connect_resolved p \<Rightarrow>
          if pending_connects s = 0 then injectedProvider s
          else (case Web3Provider im p of
                  Inl x \<Rightarrow> injectedProvider s
                | Inr web3Provider \<Rightarrow> web3Provider)
      | _ \<Rightarrow> injectedProvider s)"
  by (cases e) (simp_all add: step_defs split: sum.splits)

text \<open>
  Settling a connect touches \<open>pending_connects\<close> and \<open>injectedProvider\<close>, settling a request
  touches \<open>pending_fetches\<close> and \<open>userRole\<close>: the two commute.
\<close>

lemma settle_commute:
  "settles_connect ec \<Longrightarrow> settles_fetch ef \<Longrightarrow>
     step im (step im s ec) ef = step im (step im s ef) ec"
  by (cases ec; cases ef) (simp_all add: step_defs settles_fetch_def split: sum.splits)

lemma role_of_response_cases:
  "role_of_response r =
     (if data r = JNull \<or> data r = JUndefined then Inl TypeError
      else Inr (if has_truthy (data r) ''isAdmin'' then admin USER_ROLES
                else registered USER_ROLES))"
  by (cases "data r") (simp_all add: role_of_response_def has_truthy_def)

lemma issues_fetch_address:
  "issues_fetch s e \<Longrightarrow> \<exists>a. a \<noteq> [] \<and> commit_address e = Some a"
  by (cases e; cases "commit_address e") auto


section \<open>Invariants of the runs\<close>

lemma run_invariant:
  assumes "I s" and "\<And>s e. I s \<Longrightarrow> I (step im s e)"
  shows "I (run im s es)"
  using assms(1) by (induction es arbitrary: s) (simp_all add: assms(2))

lemma requested_step:
  "(mounted s \<and> truthy (str_val (effect_address s)) \<longrightarrow>
      user_request im (effect_address s) \<in> set (http_log s)) \<Longrightarrow>
   (mounted (step im s e) \<and> truthy (str_val (effect_address (step im s e))) \<longrightarrow>
      user_request im (effect_address (step im s e)) \<in> set (http_log (step im s e)))"
  unfolding http_log_step effect_address_step mounted_step
  by (cases e) auto

lemma requested_run:
  "mounted (run im init es) \<and> truthy (str_val (effect_address (run im init es))) \<longrightarrow>
     user_request im (effect_address (run im init es)) \<in> set (http_log (run im init es))"
  by (rule run_invariant[where I = "\<lambda>s. mounted s \<and> truthy (str_val (effect_address s)) \<longrightarrow>
        user_request im (effect_address s) \<in> set (http_log s)"])
     (simp add: init_def, erule requested_step)

lemma user_request_shape:
  "issues_fetch s e \<Longrightarrow>
     \<exists>a. a \<noteq> [] \<and> user_request im (commit_address e) =
       \<lparr>method = GET, url = SERVER_URL im @ ''/user'',
        params = [(''address'', JStr a)], body = None\<rparr>"
  by (drule issues_fetch_address) (auto simp add: user_request_def)

lemma user_get_step:
  assumes "\<forall>r \<in> set (http_log s). user_get im r"
  shows "\<forall>r \<in> set (http_log (step im s e)). user_get im r"
proof (cases "issues_fetch s e")
  case True
  from user_request_shape[OF True, of im]
  have "user_get im (user_request im (commit_address e))"
    by (auto simp add: user_get_def)
  with assms True show ?thesis by (simp add: http_log_step del: step.simps)
next
  case False
  with assms show ?thesis by (simp add: http_log_step del: step.simps)
qed

lemma user_get_run: "\<forall>r \<in> set (http_log (run im init es)). user_get im r"
  by (rule run_invariant[where I = "\<lambda>s. \<forall>r \<in> set (http_log s). user_get im r"])
     (simp add: init_def, erule user_get_step)





lemma emit_timeouts:
  "emit window_ethereum name cachedProvider =
     (if (name = ''chainChanged'' \<or> name = ''accountsChanged'') \<and> truthy window_ethereum \<and>
         has_method window_ethereum ''on'' \<and> truthy cachedProvider
      then [\<lparr>callback = Reload_page, ms = 1\<rparr>] else [])"
  by (auto simp add: emit_def wallet_handlers_def ethereum_on_def has_method_def
        chainChanged_handler_def accountsChanged_handler_def split: sum.splits)

lemma log_length_run:
  "length (http_log (run im s es)) \<le> length (http_log s) + length (filter is_commit es)"
proof (induction es arbitrary: s)
  case Nil
  then show ?case by simp
next
  case (Cons e es)
  have "length (http_log (step im s e)) \<le> length (http_log s) + (if is_commit e then 1 else 0)"
    unfolding http_log_step by (cases e) simp_all
  with Cons[of "step im s e"] show ?case by (auto split: if_splits)
qed

lemma chainId_present:
  "truthy up \<Longrightarrow> has_truthy up ''_network'' \<Longrightarrow>
     chainId_of up = get_prop2 up ''_network'' ''chainId'' \<and> (\<exists>c. chainId_of up = Inr c)"
proof (cases up)
  case (JObj fs)
  assume "has_truthy up ''_network''"
  with JObj obtain n where n: "map_of fs ''_network'' = Some n" "truthy n"
    by (cases "map_of fs ''_network''") (simp_all add: has_truthy_def)
  from n have "\<exists>c. get_prop n ''chainId'' = Inr c" by (cases n) simp_all
  with JObj n show ?thesis
    by (simp add: chainId_of_def js_and_def get_prop2_def)
qed (simp_all add: has_truthy_def)

lemma chainId_absent:
  "\<not> (truthy up \<and> has_truthy up ''_network'') \<Longrightarrow>
     \<exists>v. chainId_of up = Inr v \<and> \<not> truthy v"
  by (cases up)
     (auto simp add: chainId_of_def js_and_def has_truthy_def get_prop2_def
        split: option.splits)


section \<open>The role fetch\<close>

text \<open>
  C1 (as amended). For every non-empty wallet address the App issues an HTTP GET to
  \<open>SERVER_URL + "/user"\<close> with that address as the query parameter \<open>address\<close>: in the
  commit in which the address first appears or changes, so that in every state a run from
  the initial state reaches, the request for the current non-empty address has been
  issued. When a pending request is answered, \<open>userRole\<close> is set to the administrator role
  if the \<open>isAdmin\<close> field of the response data is truthy and to the registered role
  otherwise, except that for a response whose data is \<open>null\<close> or \<open>undefined\<close> the read of
  \<open>isAdmin\<close> throws and the \<open>catch\<close> sets the anonymous role.
\<close>

theorem role_fetch_and_classification:
  "(truthy (str_val a) \<and> \<not> mounted s \<longrightarrow>
      http_log (step im s (Mount c a)) = http_log s @
        [\<lparr>method = GET, url = SERVER_URL im @ ''/user'',
          params = [(''address'', str_val a)], body = None\<rparr>]) \<and>
   (truthy (str_val a) \<and> mounted s \<and> a \<noteq> effect_address s \<longrightarrow>
      http_log (step im s (Update a)) = http_log s @
        [\<lparr>method = GET, url = SERVER_URL im @ ''/user'',
          params = [(''address'', str_val a)], body = None\<rparr>]) \<and>
   (mounted (run im init es) \<and> truthy (str_val (effect_address (run im init es))) \<longrightarrow>
      \<lparr>method = GET, url = SERVER_URL im @ ''/user'',
        params = [(''address'', str_val (effect_address (run im init es)))], body = None\<rparr>
        \<in> set (http_log (run im init es))) \<and>
   (i < length (pending_fetches s) \<longrightarrow>
      userRole (step im s (Fetch_resolved i r)) =
        (if data r = JNull \<or> data r = JUndefined then anonymous USER_ROLES
         else if has_truthy (data r) ''isAdmin'' then admin USER_ROLES
         else registered USER_ROLES))"
proof (intro conjI)
  show "truthy (str_val a) \<and> \<not> mounted s \<longrightarrow>
      http_log (step im s (Mount c a)) = http_log s @
        [\<lparr>method = GET, url = SERVER_URL im @ ''/user'',
          params = [(''address'', str_val a)], body = None\<rparr>]"
    by (simp add: http_log_step user_request_def del: step.simps)
  show "truthy (str_val a) \<and> mounted s \<and> a \<noteq> effect_address s \<longrightarrow>
      http_log (step im s (Update a)) = http_log s @
        [\<lparr>method = GET, url = SERVER_URL im @ ''/user'',
          params = [(''address'', str_val a)], body = None\<rparr>]"
    by (simp add: http_log_step user_request_def del: step.simps)
  show "mounted (run im init es) \<and> truthy (str_val (effect_address (run im init es))) \<longrightarrow>
      \<lparr>method = GET, url = SERVER_URL im @ ''/user'',
        params = [(''address'', str_val (effect_address (run im init es)))], body = None\<rparr>
        \<in> set (http_log (run im init es))"
    using requested_run[of im es] by (simp add: user_request_def)
  show "i < length (pending_fetches s) \<longrightarrow>
      userRole (step im s (Fetch_resolved i r)) =
        (if data r = JNull \<or> data r = JUndefined then anonymous USER_ROLES
         else if has_truthy (data r) ''isAdmin'' then admin USER_ROLES
         else registered USER_ROLES)"
    by (simp add: userRole_step role_of_response_cases del: step.simps)
qed

text \<open>
  The theorem at work: the first commit with the address \<open>0xA\<close> issues the request for
  \<open>0xA\<close>; a later commit with \<open>0xB\<close> issues the one for \<open>0xB\<close>; the pending request answered
  with \<open>{isAdmin: true}\<close>, \<open>{isAdmin: false}\<close> and \<open>null\<close> gives the three roles.
\<close>

theorem role_fetch_and_classification_witness:
  "truthy (str_val (Some ''0xA'')) \<and> \<not> mounted init \<and>
   http_log (step example_imported init (Mount JUndefined (Some ''0xA''))) =
     [\<lparr>method = GET, url = ''https://backend/user'',
       params = [(''address'', JStr ''0xA'')], body = None\<rparr>] \<and>
   truthy (str_val (Some ''0xB'')) \<and> mounted example_fetching \<and>
   Some ''0xB'' \<noteq> effect_address example_fetching \<and>
   http_log (step example_imported example_fetching (Update (Some ''0xB''))) =
     [\<lparr>method = GET, url = ''https://backend/user'',
       params = [(''address'', JStr ''0xA'')], body = None\<rparr>,
      \<lparr>method = GET, url = ''https://backend/user'',
       params = [(''address'', JStr ''0xB'')], body = None\<rparr>] \<and>
   0 < length (pending_fetches example_fetching) \<and>
   userRole (step example_imported example_fetching
      (Fetch_resolved 0 \<lparr>data = JObj [(''isAdmin'', JBool True)]\<rparr>)) =
     ''user_role.administrator'' \<and>
   userRole (step example_imported example_fetching
      (Fetch_resolved 0 \<lparr>data = JObj [(''isAdmin'', JBool False)]\<rparr>)) =
     ''user_role.registered'' \<and>
   userRole (step example_imported example_fetching
      (Fetch_resolved 0 \<lparr>data = JNull\<rparr>)) = ''user_role.anonymous''"
proof -
  have h1: "truthy (str_val (Some ''0xA'')) \<and> \<not> mounted init"
    by (simp add: init_def)
  have h2: "truthy (str_val (Some ''0xB'')) \<and> mounted example_fetching \<and>
      Some ''0xB'' \<noteq> effect_address example_fetching"
    by (simp add: example_defs)
  have h3: "0 < length (pending_fetches example_fetching)"
    by (simp add: example_defs)
  have log: "http_log init = []" "http_log example_fetching =
     [\<lparr>method = GET, url = ''https://backend/user'',
       params = [(''address'', JStr ''0xA'')], body = None\<rparr>]"
    by (simp_all add: example_defs)
  note t = role_fetch_and_classification
  from t[where a = "Some ''0xA''" and s = init and im = example_imported and c = JUndefined]
    h1 log
  have c1: "http_log (step example_imported init (Mount JUndefined (Some ''0xA''))) =
     [\<lparr>method = GET, url = ''https://backend/user'',
       params = [(''address'', JStr ''0xA'')], body = None\<rparr>]"
    by (simp add: example_imported_def del: step.simps)
  from t[where a = "Some ''0xB''" and s = example_fetching and im = example_imported] h2 log
  have c2: "http_log (step example_imported example_fetching (Update (Some ''0xB''))) =
     [\<lparr>method = GET, url = ''https://backend/user'',
       params = [(''address'', JStr ''0xA'')], body = None\<rparr>,
      \<lparr>method = GET, url = ''https://backend/user'',
       params = [(''address'', JStr ''0xB'')], body = None\<rparr>]"
    by (simp add: example_imported_def del: step.simps)
  from t[where s = example_fetching and i = 0 and im = example_imported
      and r = "\<lparr>data = JObj [(''isAdmin'', JBool True)]\<rparr>"] h3
  have c3: "userRole (step example_imported example_fetching
      (Fetch_resolved 0 \<lparr>data = JObj [(''isAdmin'', JBool True)]\<rparr>)) =
     ''user_role.administrator''"
    by (simp add: has_truthy_def USER_ROLES_def del: step.simps)
  from t[where s = example_fetching and i = 0 and im = example_imported
      and r = "\<lparr>data = JObj [(''isAdmin'', JBool False)]\<rparr>"] h3
  have c4: "userRole (step example_imported example_fetching
      (Fetch_resolved 0 \<lparr>data = JObj [(''isAdmin'', JBool False)]\<rparr>)) =
     ''user_role.registered''"
    by (simp add: has_truthy_def USER_ROLES_def del: step.simps)
  from t[where s = example_fetching and i = 0 and im = example_imported
      and r = "\<lparr>data = JNull\<rparr>"] h3
  have c5: "userRole (step example_imported example_fetching
      (Fetch_resolved 0 \<lparr>data = JNull\<rparr>)) = ''user_role.anonymous''"
    by (simp add: has_truthy_def USER_ROLES_def del: step.simps)
  from h1 h2 h3 c1 c2 c3 c4 c5 show ?thesis by blast
qed

text \<open>
  C1 as stated fails for a response whose data is \<open>null\<close> (a body that is the JSON text
  \<open>null\<close>): its \<open>isAdmin\<close> is not truthy, yet \<open>userRole\<close> becomes the anonymous role, which
  is neither the administrator nor the registered one.
\<close>

theorem role_classification_counterexample:
  "userRole (run example_imported init
      [Mount JUndefined (Some ''0xA''), Fetch_resolved 0 \<lparr>data = JNull\<rparr>]) =
     ''user_role.anonymous'' \<and>
   ''user_role.anonymous'' \<noteq> registered USER_ROLES \<and>
   ''user_role.anonymous'' \<noteq> admin USER_ROLES \<and>
   \<not> has_truthy (data \<lparr>data = JNull\<rparr>) ''isAdmin''"
  by (simp add: example_defs role_of_response_def has_truthy_def)


section \<open>The providers of the module\<close>

text \<open>
  C2 (as amended). When it is loaded the module instantiates three JSON-RPC providers:
  \<open>scaffoldEthProvider\<close> at the constant URL \<open>https://rpc.scaffoldeth.io:48544\<close>,
  \<open>mainnetInfura\<close> at \<open>https://mainnet.infura.io/v3/\<close> followed by the constant
  \<open>INFURA_ID\<close>, and \<open>localProvider\<close> at the environment variable \<open>REACT_APP_PROVIDER\<close> when
  it is set and not empty, at \<open>NETWORKS.mainnet.rpcUrl\<close> otherwise. The first two do not
  depend on the environment.
\<close>

theorem module_providers_three:
  "module_providers env c =
     [StaticJsonRpcProvider ''https://rpc.scaffoldeth.io:48544'',
      StaticJsonRpcProvider (''https://mainnet.infura.io/v3/'' @ INFURA_ID c),
      StaticJsonRpcProvider
        (case env of
           None \<Rightarrow> NETWORKS_mainnet_rpcUrl c
         | Some u \<Rightarrow> if u = [] then NETWORKS_mainnet_rpcUrl c else u)] \<and>
   length (module_providers env c) = 3 \<and>
   take 2 (module_providers env c) = take 2 (module_providers env' c)"
  by (simp add: module_providers_def scaffoldEthProvider_def mainnetInfura_def
        localProvider_def localProviderUrlFromEnv_def localProviderUrl_def numeral_2_eq_2
      split: option.splits)

theorem module_providers_three_witness:
  "map endpoint (module_providers (Some ''https://dai.poa.network'') example_constants) =
     [''https://rpc.scaffoldeth.io:48544'', ''https://mainnet.infura.io/v3/id'',
      ''https://dai.poa.network''] \<and>
   map endpoint (module_providers (Some []) example_constants) =
     [''https://rpc.scaffoldeth.io:48544'', ''https://mainnet.infura.io/v3/id'',
      ''https://mainnet'']"
  using module_providers_three[of "Some ''https://dai.poa.network''" example_constants None]
    module_providers_three[of "Some []" example_constants None]
  by (simp add: example_constants_def)

text \<open>
  C2 as stated fails: the providers are three, not two, and the URL of \<open>localProvider\<close>
  follows the environment.
\<close>

theorem two_fixed_providers_counterexample:
  "length (module_providers None example_constants) = 3 \<and>
   length (module_providers None example_constants) \<noteq> 2 \<and>
   endpoint (localProvider (Some ''https://dai.poa.network'') example_constants) \<noteq>
     endpoint (localProvider None example_constants)"
  by (simp add: module_providers_def localProvider_def localProviderUrlFromEnv_def
        localProviderUrl_def example_constants_def)


section \<open>Connecting a wallet\<close>

text \<open>
  C3 (as amended). When the \<open>web3Modal.connect()\<close> that \<open>loadWeb3Modal\<close> awaits resolves
  with a value \<open>p\<close> and \<open>new Web3Provider(p)\<close> returns a provider, \<open>loadWeb3Modal\<close> stores
  that provider in the state \<open>injectedProvider\<close>: after a call of \<open>loadWeb3Modal\<close> from any
  state, and in any state with a connect pending. When the constructor throws for \<open>p\<close>,
  \<open>setInjectedProvider\<close> is not called and \<open>injectedProvider\<close> keeps its value. In both
  cases the role, the flash messages and the requests issued are left as they are.
\<close>

theorem loadWeb3Modal_stores_provider:
  "(Web3Provider im p = Inr w \<longrightarrow>
      injectedProvider (step im (loadWeb3Modal s) (Connect_resolved p)) = w) \<and>
   (0 < pending_connects s \<and> Web3Provider im p = Inr w \<longrightarrow>
      injectedProvider (step im s (Connect_resolved p)) = w) \<and>
   (Web3Provider im p = Inl x \<longrightarrow>
      injectedProvider (step im s (Connect_resolved p)) = injectedProvider s) \<and>
   userRole (step im s (Connect_resolved p)) = userRole s \<and>
   flashMessages (step im s (Connect_resolved p)) = flashMessages s \<and>
   http_log (step im s (Connect_resolved p)) = http_log s"
  by (simp add: loadWeb3Modal_def loadWeb3Modal_resumed_def split: sum.splits)

text \<open>
  With a cached provider the first commit calls \<open>loadWeb3Modal\<close>; the modal resolving with
  \<open>example_wallet\<close>, which the constructor accepts, leaves the new provider in the state;
  resolving with an object that has none of the three methods leaves the state as it was.
\<close>

theorem loadWeb3Modal_stores_provider_witness:
  "0 < pending_connects (step example_imported init (Mount (JStr ''injected'') None)) \<and>
   Web3Provider example_imported example_wallet =
     Inr (JObj [(''provider'', example_wallet)]) \<and>
   injectedProvider (run example_imported init
      [Mount (JStr ''injected'') None, Connect_resolved example_wallet]) =
     JObj [(''provider'', example_wallet)] \<and>
   Web3Provider example_imported (JObj []) = Inl InvalidArgument \<and>
   injectedProvider (run example_imported init
      [Mount (JStr ''injected'') None, Connect_resolved (JObj [])]) = JUndefined"
proof -
  let ?s = "step example_imported init (Mount (JStr ''injected'') None)"
  have pending: "0 < pending_connects ?s" and before: "injectedProvider ?s = JUndefined"
    by (simp_all add: example_defs)
  have accepted: "Web3Provider example_imported example_wallet =
      Inr (JObj [(''provider'', example_wallet)])"
    and refused: "Web3Provider example_imported (JObj []) = Inl InvalidArgument"
    by (simp_all add: example_imported_def example_Web3Provider_def example_wallet_def
          has_truthy_def)
  from loadWeb3Modal_stores_provider
    [of example_imported example_wallet "JObj [(''provider'', example_wallet)]" ?s]
    pending accepted
  have c1: "injectedProvider (run example_imported init
      [Mount (JStr ''injected'') None, Connect_resolved example_wallet]) =
     JObj [(''provider'', example_wallet)]"
    by (simp del: step.simps)
  from loadWeb3Modal_stores_provider
    [where im = example_imported and p = "JObj []" and x = InvalidArgument and s = ?s]
    refused before
  have c2: "injectedProvider (run example_imported init
      [Mount (JStr ''injected'') None, Connect_resolved (JObj [])]) = JUndefined"
    by (simp del: step.simps)
  from pending accepted refused c1 c2 show ?thesis by blast
qed

text \<open>
  C3 as stated fails for a value the constructor refuses: when the modal resolves with
  \<open>null\<close>, the constructor throws and \<open>injectedProvider\<close> stays \<open>undefined\<close>.
\<close>

theorem loadWeb3Modal_counterexample:
  "Web3Provider example_imported JNull = Inl InvalidArgument \<and>
   0 < pending_connects (run example_imported init [Mount (JStr ''injected'') None]) \<and>
   injectedProvider (run example_imported init
      [Mount (JStr ''injected'') None, Connect_resolved JNull]) = JUndefined"
  by (simp add: example_defs)


section \<open>What a render derives from the provider\<close>

text \<open>
  C4. In a render \<open>userProvider\<close> is \<open>useUserProvider(injectedProvider)\<close> and \<open>address\<close> is
  \<open>useUserAddress(userProvider)\<close>. \<open>selectedChainId\<close> is \<open>userProvider._network.chainId\<close>
  whenever \<open>userProvider\<close> and its \<open>_network\<close> are truthy (and that read does not throw);
  otherwise it is a falsy value, and nothing is thrown.
\<close>

theorem address_and_chainId_derived:
  "userProvider h s = useUserProvider h (injectedProvider s) \<and>
   address h s = useUserAddress h (userProvider h s) \<and>
   (truthy (userProvider h s) \<and> has_truthy (userProvider h s) ''_network'' \<longrightarrow>
      selectedChainId h s = get_prop2 (userProvider h s) ''_network'' ''chainId'' \<and>
      (\<exists>c. selectedChainId h s = Inr c)) \<and>
   (\<not> (truthy (userProvider h s) \<and> has_truthy (userProvider h s) ''_network'') \<longrightarrow>
      (\<exists>v. selectedChainId h s = Inr v \<and> \<not> truthy v))"
proof (intro conjI impI)
  show "userProvider h s = useUserProvider h (injectedProvider s)"
    by (simp add: userProvider_def)
  show "address h s = useUserAddress h (userProvider h s)"
    by (simp add: address_def)
next
  assume present: "truthy (userProvider h s) \<and> has_truthy (userProvider h s) ''_network''"
  with chainId_present[of "userProvider h s"]
  show "selectedChainId h s = get_prop2 (userProvider h s) ''_network'' ''chainId''"
    and "\<exists>c. selectedChainId h s = Inr c"
    unfolding selectedChainId_def by blast+
next
  assume "\<not> (truthy (userProvider h s) \<and> has_truthy (userProvider h s) ''_network'')"
  from chainId_absent[OF this]
  show "\<exists>v. selectedChainId h s = Inr v \<and> \<not> truthy v"
    unfolding selectedChainId_def by blast
qed

text \<open>
  With \<open>example_provider\<close> (chain 1) injected the chain id is 1 and the address is the one
  the hook gives; before any provider is injected the chain id is \<open>undefined\<close>.
\<close>

theorem address_and_chainId_derived_witness:
  "truthy (userProvider example_hooks (init\<lparr>injectedProvider := example_provider\<rparr>)) \<and>
   has_truthy (userProvider example_hooks (init\<lparr>injectedProvider := example_provider\<rparr>))
     ''_network'' \<and>
   selectedChainId example_hooks (init\<lparr>injectedProvider := example_provider\<rparr>) =
     Inr (JNum 1) \<and>
   address example_hooks (init\<lparr>injectedProvider := example_provider\<rparr>) = Some ''0xA'' \<and>
   \<not> truthy (userProvider example_hooks init) \<and>
   selectedChainId example_hooks init = Inr JUndefined \<and>
   address example_hooks init = None"
proof -
  let ?s = "init\<lparr>injectedProvider := example_provider\<rparr>"
  have up: "userProvider example_hooks ?s = example_provider"
    "userProvider example_hooks init = JUndefined"
    by (simp_all add: userProvider_def example_hooks_def init_def)
  have present: "truthy (userProvider example_hooks ?s) \<and>
      has_truthy (userProvider example_hooks ?s) ''_network''"
    unfolding up by (simp add: example_provider_def has_truthy_def)
  have absent: "\<not> truthy (userProvider example_hooks init)"
    unfolding up by simp
  from address_and_chainId_derived[of example_hooks ?s] present
  have c1: "selectedChainId example_hooks ?s = Inr (JNum 1)"
    and a1: "address example_hooks ?s = Some ''0xA''"
    unfolding up by (simp_all add: example_provider_def get_prop2_def example_hooks_def)
  from address_and_chainId_derived[of example_hooks init] absent
  have a2: "address example_hooks init = None"
    unfolding up by (simp add: example_hooks_def)
  have c2: "selectedChainId example_hooks init = Inr JUndefined"
    unfolding selectedChainId_def up by (simp add: chainId_of_def js_and_def)
  from present absent c1 a1 c2 a2 show ?thesis by blast
qed


section \<open>Wallet events\<close>

text \<open>
  C5 (as amended). On each of the two wallet events \<open>chainChanged\<close> and \<open>accountsChanged\<close>
  a reload of the page is scheduled (\<open>setTimeout\<close>, 1 ms) exactly when
  \<open>web3Modal.cachedProvider\<close> is truthy as the event arrives and the handlers were
  registered when the module was loaded, that is, \<open>window.ethereum\<close> was truthy and had a
  function \<open>on\<close>; otherwise the event does nothing. When \<open>window.ethereum\<close> is falsy no
  handler is registered; when it is truthy and its \<open>on\<close> is not a function, the
  registration throws a TypeError while the module is loaded.
\<close>

theorem wallet_event_reload:
  "name = ''chainChanged'' \<or> name = ''accountsChanged'' \<Longrightarrow>
     emit window_ethereum name cachedProvider =
       (if truthy window_ethereum \<and> has_method window_ethereum ''on'' \<and> truthy cachedProvider
        then [\<lparr>callback = Reload_page, ms = 1\<rparr>] else []) \<and>
     reloads_page (emit window_ethereum name cachedProvider) =
       (truthy window_ethereum \<and> has_method window_ethereum ''on'' \<and> truthy cachedProvider) \<and>
     (wallet_handlers window_ethereum = Inl TypeError) =
       (truthy window_ethereum \<and> \<not> has_method window_ethereum ''on'') \<and>
     (wallet_handlers window_ethereum = Inr []) = (\<not> truthy window_ethereum)"
proof (intro conjI)
  assume name: "name = ''chainChanged'' \<or> name = ''accountsChanged''"
  then show emitted: "emit window_ethereum name cachedProvider =
       (if truthy window_ethereum \<and> has_method window_ethereum ''on'' \<and> truthy cachedProvider
        then [\<lparr>callback = Reload_page, ms = 1\<rparr>] else [])"
    by (simp add: emit_timeouts)
  show "reloads_page (emit window_ethereum name cachedProvider) =
       (truthy window_ethereum \<and> has_method window_ethereum ''on'' \<and> truthy cachedProvider)"
    unfolding emitted by (simp add: reloads_page_def)
  show "(wallet_handlers window_ethereum = Inl TypeError) =
       (truthy window_ethereum \<and> \<not> has_method window_ethereum ''on'')"
    by (cases window_ethereum)
       (auto simp add: wallet_handlers_def ethereum_on_def has_method_def split: sum.splits)
  show "(wallet_handlers window_ethereum = Inr []) = (\<not> truthy window_ethereum)"
    by (cases window_ethereum)
       (auto simp add: wallet_handlers_def ethereum_on_def has_method_def split: sum.splits)
qed

text \<open>
  With the wallet of the example and a cached provider both events schedule the reload;
  with nothing cached they do not; with a \<open>window.ethereum\<close> that has no \<open>on\<close> the
  registration throws and nothing is ever scheduled.
\<close>

theorem wallet_event_reload_witness:
  "emit example_wallet ''chainChanged'' (JStr ''injected'') =
     [\<lparr>callback = Reload_page, ms = 1\<rparr>] \<and>
   reloads_page (emit example_wallet ''accountsChanged'' (JStr ''injected'')) \<and>
   emit example_wallet ''accountsChanged'' JUndefined = [] \<and>
   wallet_handlers (JObj []) = Inl TypeError \<and>
   emit (JObj []) ''chainChanged'' (JStr ''injected'') = []"
proof -
  have wallet: "truthy example_wallet" "has_method example_wallet ''on''"
    and bare: "truthy (JObj [])" "\<not> has_method (JObj []) ''on''"
    by (simp_all add: example_wallet_def has_method_def)
  note t = wallet_event_reload
  from t[of "''chainChanged''" example_wallet "JStr ''injected''"] wallet
  have c1: "emit example_wallet ''chainChanged'' (JStr ''injected'') =
     [\<lparr>callback = Reload_page, ms = 1\<rparr>]"
    by simp
  from t[of "''accountsChanged''" example_wallet "JStr ''injected''"] wallet
  have c2: "reloads_page (emit example_wallet ''accountsChanged'' (JStr ''injected''))"
    by (simp add: reloads_page_def)
  from t[of "''accountsChanged''" example_wallet JUndefined]
  have c3: "emit example_wallet ''accountsChanged'' JUndefined = []"
    by simp
  from t[of "''chainChanged''" "JObj []" "JStr ''injected''"] bare
  have c4: "wallet_handlers (JObj []) = Inl TypeError"
    and c5: "emit (JObj []) ''chainChanged'' (JStr ''injected'') = []"
    by simp_all
  from c1 c2 c3 c4 c5 show ?thesis by blast
qed

text \<open>
  C5 as stated fails: with a wallet in the browser (\<open>window.ethereum\<close> is an object with
  \<open>on\<close>, so both handlers are registered) and no provider cached by web3modal
  (\<open>cachedProvider\<close> is the empty string), neither event reloads the page.
\<close>

theorem wallet_event_reload_counterexample:
  "truthy example_wallet \<and> has_method example_wallet ''on'' \<and>
   emit example_wallet ''chainChanged'' (JStr []) = [] \<and>
   \<not> reloads_page (emit example_wallet ''chainChanged'' (JStr [])) \<and>
   \<not> reloads_page (emit example_wallet ''accountsChanged'' (JStr []))"
  by (simp add: emit_timeouts example_wallet_def has_method_def reloads_page_def)


section \<open>The requests of a run\<close>

text \<open>
  C6. Every HTTP request the App issues, in any run from the initial state, is a GET to
  \<open>SERVER_URL + "/user"\<close> whose only query parameter is \<open>address\<close>, a non-empty string, and
  which has no body: no other path, method or body is used.
\<close>

theorem only_user_get:
  "r \<in> set (http_log (run im init es)) \<Longrightarrow>
     method r = GET \<and> url r = SERVER_URL im @ ''/user'' \<and> body r = None \<and>
     (\<exists>a. a \<noteq> [] \<and> params r = [(''address'', JStr a)])"
  using user_get_run[of im es] by (simp add: user_get_def)

text \<open>
  A run with a connect, two addresses and a failed request: its second request is the
  GET for \<open>0xB\<close>.
\<close>

theorem only_user_get_witness:
  "http_log (run example_imported init
      [Mount (JStr ''injected'') None, Update (Some ''0xA''), Fetch_rejected 0,
       Update (Some ''0xB'')]) ! 1
     \<in> set (http_log (run example_imported init
      [Mount (JStr ''injected'') None, Update (Some ''0xA''), Fetch_rejected 0,
       Update (Some ''0xB'')])) \<and>
   http_log (run example_imported init
      [Mount (JStr ''injected'') None, Update (Some ''0xA''), Fetch_rejected 0,
       Update (Some ''0xB'')]) ! 1 =
     \<lparr>method = GET, url = ''https://backend/user'',
      params = [(''address'', JStr ''0xB'')], body = None\<rparr>"
proof -
  let ?es = "[Mount (JStr ''injected'') None, Update (Some ''0xA''), Fetch_rejected 0,
       Update (Some ''0xB'')]"
  have log: "http_log (run example_imported init ?es) =
     [\<lparr>method = GET, url = ''https://backend/user'',
       params = [(''address'', JStr ''0xA'')], body = None\<rparr>,
      \<lparr>method = GET, url = ''https://backend/user'',
       params = [(''address'', JStr ''0xB'')], body = None\<rparr>]"
    by (simp add: example_defs)
  then have member: "http_log (run example_imported init ?es) ! 1
      \<in> set (http_log (run example_imported init ?es))"
    by simp
  from only_user_get[OF member] log
  have "method (http_log (run example_imported init ?es) ! 1) = GET \<and>
        url (http_log (run example_imported init ?es) ! 1) = ''https://backend/user''"
    by (simp add: example_imported_def)
  with member log show ?thesis by simp
qed


section \<open>The asynchronous calls\<close>

text \<open>
  C7 (as amended). The asynchronous operations the file starts are: the wallet connect of
  \<open>loadWeb3Modal\<close> (in the first commit when a provider is cached, and whenever \<open>Header\<close>
  calls it), the role fetch of \<open>fetchUserData\<close>, the \<open>clearCachedProvider()\<close> that
  \<open>logoutOfWeb3Modal\<close> awaits, and the 1 ms timeouts of the reload, set by
  \<open>logoutOfWeb3Modal\<close> and by the two wallet-event handlers. The connect and the role fetch
  are fire-and-forget. A role fetch is issued in a commit exactly when the role effect
  runs in it (the first commit, or \<open>address\<close> differs from the address of the last commit,
  which every commit records) and \<open>address\<close> is not empty: one fetch at most per commit, so
  a run issues no more fetches than it has commits, and can issue more than one. Neither
  call is cancelled: a pending request leaves the pending ones only by its own settlement,
  which removes it alone, and the number of pending connects goes down only by one, at
  the settlement of a connect. No order between the two is enforced: the settlement of a
  connect and the settlement of a request can happen in either order, with the same
  result.
\<close>

theorem async_calls_independent:
  "async_started (step im s e) = async_started s @ starts im s e \<and>
   set (emit window_ethereum name cachedProvider) \<subseteq> {\<lparr>callback = Reload_page, ms = 1\<rparr>} \<and>
   http_log (step im s e) =
     http_log s @ (if issues_fetch s e then [user_request im (commit_address e)] else []) \<and>
   length (http_log (run im s es)) \<le> length (http_log s) + length (filter is_commit es) \<and>
   mounted (step im s e) = (mounted s \<or> (case e of Mount c a \<Rightarrow> True | _ \<Rightarrow> False)) \<and>
   effect_address (step im s e) =
     (case e of
        Mount c a \<Rightarrow> if mounted s then effect_address s else a
      | Update a \<Rightarrow> if mounted s then a else effect_address s
      | _ \<Rightarrow> effect_address s) \<and>
   pending_fetches (step im s e) =
     (case settled_fetch e of
        Some i \<Rightarrow>
          if i < length (pending_fetches s)
          then take i (pending_fetches s) @ drop (Suc i) (pending_fetches s)
          else pending_fetches s
      | None \<Rightarrow> pending_fetches s @
          (if issues_fetch s e then [user_request im (commit_address e)] else [])) \<and>
   pending_connects (step im s e) =
     (if settles_connect e then pending_connects s - 1
      else if calls_loadWeb3Modal s e then Suc (pending_connects s)
      else pending_connects s) \<and>
   (settles_connect ec \<and> settles_fetch ef \<longrightarrow>
      step im (step im s ec) ef = step im (step im s ef) ec)"
proof (intro conjI)
  show "async_started (step im s e) = async_started s @ starts im s e"
    by (rule async_started_step)
  show "set (emit window_ethereum name cachedProvider) \<subseteq> {\<lparr>callback = Reload_page, ms = 1\<rparr>}"
    by (auto simp add: emit_timeouts)
  show "http_log (step im s e) =
     http_log s @ (if issues_fetch s e then [user_request im (commit_address e)] else [])"
    by (rule http_log_step)
  show "length (http_log (run im s es)) \<le> length (http_log s) + length (filter is_commit es)"
    by (rule log_length_run)
  show "mounted (step im s e) = (mounted s \<or> (case e of Mount c a \<Rightarrow> True | _ \<Rightarrow> False))"
    by (rule mounted_step)
  show "effect_address (step im s e) =
     (case e of
        Mount c a \<Rightarrow> if mounted s then effect_address s else a
      | Update a \<Rightarrow> if mounted s then a else effect_address s
      | _ \<Rightarrow> effect_address s)"
    by (rule effect_address_step)
  show "pending_fetches (step im s e) =
     (case settled_fetch e of
        Some i \<Rightarrow>
          if i < length (pending_fetches s)
          then take i (pending_fetches s) @ drop (Suc i) (pending_fetches s)
          else pending_fetches s
      | None \<Rightarrow> pending_fetches s @
          (if issues_fetch s e then [user_request im (commit_address e)] else []))"
    by (rule pending_fetches_step)
  show "pending_connects (step im s e) =
     (if settles_connect e then pending_connects s - 1
      else if calls_loadWeb3Modal s e then Suc (pending_connects s)
      else pending_connects s)"
    by (rule pending_connects_step)
  show "settles_connect ec \<and> settles_fetch ef \<longrightarrow>
      step im (step im s ec) ef = step im (step im s ef) ec"
    using settle_commute[of ec ef im s] by blast
qed

text \<open>
  From the state with the request for \<open>0xA\<close> pending: a commit with \<open>0xB\<close> issues a second
  request and leaves the first pending; the failure of the first then leaves the second
  pending alone; a call of \<open>loadWeb3Modal\<close> starts a connect; and a connect and a request
  settle in either order.
\<close>

theorem async_calls_independent_witness:
  "pending_fetches (step example_imported example_fetching (Update (Some ''0xB''))) =
     [user_request example_imported (Some ''0xA''),
      user_request example_imported (Some ''0xB'')] \<and>
   pending_fetches (run example_imported example_fetching
      [Update (Some ''0xB''), Fetch_rejected 0]) =
     [user_request example_imported (Some ''0xB'')] \<and>
   length (http_log (step example_imported example_fetching (Update (Some ''0xB'')))) = 2 \<and>
   async_started (step example_imported example_fetching Call_loadWeb3Modal) =
     [Op_get (user_request example_imported (Some ''0xA'')), Op_connect] \<and>
   settles_connect (Connect_resolved example_wallet) \<and>
   settles_fetch (Fetch_rejected 0) \<and>
   step example_imported
     (step example_imported (step example_imported example_fetching Call_loadWeb3Modal)
        (Connect_resolved example_wallet))
     (Fetch_rejected 0) =
   step example_imported
     (step example_imported (step example_imported example_fetching Call_loadWeb3Modal)
        (Fetch_rejected 0))
     (Connect_resolved example_wallet)"
proof -
  note t = async_calls_independent
  let ?s = "step example_imported example_fetching (Update (Some ''0xB''))"
  have pend: "pending_fetches example_fetching = [user_request example_imported (Some ''0xA'')]"
    and log: "http_log example_fetching = [user_request example_imported (Some ''0xA'')]"
    and started: "async_started example_fetching =
      [Op_get (user_request example_imported (Some ''0xA''))]"
    and mounted: "mounted example_fetching"
    and due: "issues_fetch example_fetching (Update (Some ''0xB''))"
    by (simp_all add: example_fetching_def init_def step_defs)
  from t[where im = example_imported and s = example_fetching and e = "Update (Some ''0xB'')"]
    pend log due
  have c1: "pending_fetches ?s =
     [user_request example_imported (Some ''0xA''), user_request example_imported (Some ''0xB'')]"
    and c2: "length (http_log ?s) = 2"
    by (simp_all del: step.simps)
  from t[where im = example_imported and s = ?s and e = "Fetch_rejected 0"] c1
  have c3: "pending_fetches (run example_imported example_fetching
      [Update (Some ''0xB''), Fetch_rejected 0]) = [user_request example_imported (Some ''0xB'')]"
    by (simp del: step.simps)
  from t[where im = example_imported and s = example_fetching and e = Call_loadWeb3Modal]
    started mounted
  have c4: "async_started (step example_imported example_fetching Call_loadWeb3Modal) =
     [Op_get (user_request example_imported (Some ''0xA'')), Op_connect]"
    by (simp add: starts_def del: step.simps)
  have settle: "settles_connect (Connect_resolved example_wallet)"
    "settles_fetch (Fetch_rejected 0)"
    by (simp_all add: settles_fetch_def)
  from t[where im = example_imported and ec = "Connect_resolved example_wallet"
      and ef = "Fetch_rejected 0"
      and s = "step example_imported example_fetching Call_loadWeb3Modal"] settle
  have c5: "step example_imported
     (step example_imported (step example_imported example_fetching Call_loadWeb3Modal)
        (Connect_resolved example_wallet))
     (Fetch_rejected 0) =
   step example_imported
     (step example_imported (step example_imported example_fetching Call_loadWeb3Modal)
        (Fetch_rejected 0))
     (Connect_resolved example_wallet)"
    by blast
  from c1 c2 c3 c4 c5 settle show ?thesis by blast
qed

text \<open>
  C7 as stated fails twice. A run in which the address is \<open>0xA\<close> at the first commit and
  \<open>0xB\<close> at a later one issues two role fetches, not one at most. And a run in which
  \<open>Header\<close> calls \<open>logoutOfWeb3Modal\<close> starts two asynchronous operations that are neither
  the wallet connect nor the role fetch: the clearing of the cached provider, which is
  awaited, and the timeout of the reload.
\<close>

theorem one_role_fetch_counterexample:
  "length (http_log (run example_imported init
      [Mount JUndefined (Some ''0xA''), Update (Some ''0xB'')])) = 2 \<and>
   \<not> length (http_log (run example_imported init
      [Mount JUndefined (Some ''0xA''), Update (Some ''0xB'')])) \<le> 1 \<and>
   async_started (run example_imported init
      [Mount JUndefined None, Call_logoutOfWeb3Modal, Clear_resolved]) =
     [Op_clearCachedProvider, Op_setTimeout \<lparr>callback = Reload_page, ms = 1\<rparr>] \<and>
   Op_clearCachedProvider \<noteq> Op_connect \<and>
   Op_setTimeout \<lparr>callback = Reload_page, ms = 1\<rparr> \<noteq> Op_connect"
  by (simp add: example_defs)


section \<open>The role\<close>





section \<open>The mainnet provider\<close>

text \<open>
  C9. \<open>mainnetProvider\<close> is a function of the two providers as they are at the render: it
  is \<open>scaffoldEthProvider\<close> when that is truthy and its \<open>_network\<close> field is truthy, and
  \<open>mainnetInfura\<close> otherwise; the expression never throws.
\<close>

theorem mainnetProvider_selected:
  "mainnetProvider scaffoldEth infura =
     Inr (if truthy scaffoldEth \<and> has_truthy scaffoldEth ''_network'' then scaffoldEth
          else infura)"
  by (cases scaffoldEth) (simp_all add: mainnetProvider_def js_and_def has_truthy_def)

theorem mainnetProvider_selected_witness:
  "mainnetProvider example_provider (JObj [(''_network'', JNull)]) = Inr example_provider \<and>
   mainnetProvider (JObj [(''_network'', JNull)]) example_provider = Inr example_provider"
  using mainnetProvider_selected[of example_provider "JObj [(''_network'', JNull)]"]
    mainnetProvider_selected[of "JObj [(''_network'', JNull)]" example_provider]
  by (simp add: example_provider_def has_truthy_def)


section \<open>Flash messages\<close>

text \<open>
  C10. For every list of flash messages and every message \<open>m\<close>, \<open>flashMessage.success(m)\<close>
  (\<open>flashMessage.error(m)\<close>) appends the one entry with status \<open>success\<close> (\<open>error\<close>) and
  text \<open>m\<close> at the end of the list: the list is one longer and the messages stored before
  are its first entries, in their order. This holds for the updater and for the state of
  the component.
\<close>

theorem flashMessage_appends:
  "flash_success m prev = prev @ [\<lparr>status = ''success'', text' = m\<rparr>] \<and>
   flash_error m prev = prev @ [\<lparr>status = ''error'', text' = m\<rparr>] \<and>
   flashMessages (step im s (Flash_success m)) =
     flashMessages s @ [\<lparr>status = ''success'', text' = m\<rparr>] \<and>
   flashMessages (step im s (Flash_error m)) =
     flashMessages s @ [\<lparr>status = ''error'', text' = m\<rparr>] \<and>
   length (flash_success m prev) = Suc (length prev) \<and>
   length (flash_error m prev) = Suc (length prev) \<and>
   take (length prev) (flash_success m prev) = prev \<and>
   take (length prev) (flash_error m prev) = prev"
  by (simp add: flash_success_def flash_error_def)

theorem flashMessage_appends_witness:
  "flashMessages (run example_imported init
      [Flash_success (JStr ''saved''), Flash_error (JStr ''failed'')]) =
     [\<lparr>status = ''success'', text' = JStr ''saved''\<rparr>,
      \<lparr>status = ''error'', text' = JStr ''failed''\<rparr>]"
proof -
  from flashMessage_appends[of "JStr ''saved''" "[]" example_imported init]
  have first: "flashMessages (step example_imported init (Flash_success (JStr ''saved''))) =
      [\<lparr>status = ''success'', text' = JStr ''saved''\<rparr>]"
    by (simp add: init_def del: step.simps)
  from flashMessage_appends[of "JStr ''failed''" "[]" example_imported
      "step example_imported init (Flash_success (JStr ''saved''))"] first
  show ?thesis
    by (simp del: step.simps)
qed

end
